theory Spec2Isabelle
  imports Main "HOL-Library.Signed_Division"
begin

section \<open>Big numbers, failures and the numeric constants\<close>

text \<open>
  Every quantity of the module is a \<open>BN\<close> of the bn.js library: an arbitrary-precision
  signed integer, here \<open>int\<close>. \<open>add\<close>, \<open>sub\<close> and \<open>mul\<close> are exact. \<open>div\<close> truncates
  towards zero and \<open>mod\<close> takes the sign of the dividend (\<open>sdiv\<close> and \<open>smod\<close> on
  \<open>int\<close>); both throw when the divisor is zero and are defined for every other divisor,
  a negative one included.

  The source throws plain JavaScript errors from two places: the \<open>assert\<close> helper, called
  on an argument check, and the division of bn.js. They are the two failures of the
  model, named after the two kinds of the specification's taxonomy.
\<close>

type_synonym BN = int

datatype error = InvalidArgument string | ArithmeticError

definition bn_div :: "BN \<Rightarrow> BN \<Rightarrow> error + BN" where
  "bn_div a b = (if b = 0 then Inl ArithmeticError else Inr (a sdiv b))"

definition bn_mod :: "BN \<Rightarrow> BN \<Rightarrow> error + BN" where
  "bn_mod a b = (if b = 0 then Inl ArithmeticError else Inr (a smod b))"

text \<open>
  Modelled from the spec: \<open>assert\<close> is imported from \<open>../assert/assert\<close>, which is not
  among the sources. A failed assertion is the fail-fast argument failure of the
  specification and carries the message of the call.
\<close>

definition assert_ts :: "bool \<Rightarrow> string \<Rightarrow> error + unit" where
  "assert_ts condition msg = (if condition then Inr () else Inl (InvalidArgument msg))"

text \<open>
  Modelled from the spec: \<open>ZERO\<close> and \<open>ONE\<close> are imported from
  \<open>../constants/numericConstants\<close>, which is not among the sources; they are the zero
  and one constants of the specification.
\<close>

definition ZERO :: BN where
  "ZERO = 0"

definition ONE :: BN where
  "ONE = 1"

text \<open>
  \<open>MARK_PRICE_PRECISION\<close> (the price scale) and \<open>PEG_PRECISION\<close> (the peg scale) come
  from the same missing file and the specification gives them no value: every function
  that reads them takes them as a parameter.
\<close>

record numericConstants =
  MARK_PRICE_PRECISION :: BN
  PEG_PRECISION :: BN

section \<open>Types of \<open>types.ts\<close>\<close>

datatype SwapDirection = ADD | REMOVE

datatype PositionDirection = LONG | SHORT

datatype OracleSource = PYTH | SWITCHBOARD

datatype AssetType = Quote | Base

type_synonym PublicKey = string

text \<open>
  The field \<open>oracle\<close> of the source is \<open>oracle'\<close> here: the plain name is reserved.
\<close>

record AMM =
  baseAssetReserve :: BN
  sqrtK :: BN
  cumulativeFundingRate :: BN
  lastFundingRate :: BN
  lastFundingRateTs :: BN
  lastMarkPriceTwap :: BN
  lastMarkPriceTwapTs :: BN
  lastOraclePriceTwap :: BN
  lastOraclePriceTwapTs :: BN
  oracle' :: PublicKey
  oracleSource :: OracleSource
  fundingPeriod :: BN
  quoteAssetReserve :: BN
  pegMultiplier :: BN
  cumulativeFundingRateLong :: BN
  cumulativeFundingRateShort :: BN
  cumulativeRepegRebateLong :: BN
  cumulativeRepegRebateShort :: BN
  totalFeeMinusDistributions :: BN
  totalFeeWithdrawn :: BN
  totalFee :: BN
  minimumQuoteAssetTradeSize :: BN
  minimumBaseAssetTradeSize :: BN

record Market =
  amm :: AMM
  baseAssetAmount :: BN
  baseAssetAmountLong :: BN
  baseAssetAmountShort :: BN
  initialized :: bool
  openInterest :: BN

text \<open>
  The position object that \<open>calculateAdjustKCost\<close> builds as an object literal. Its
  first field is \<open>baseAssetAmount\<close> in the source; the name is taken by the field of
  \<open>Market\<close>, so the fields of the position carry the prefix \<open>position_\<close>.
\<close>

record NetUserPosition =
  position_baseAssetAmount :: BN
  position_lastCumulativeFundingRate :: BN
  position_marketIndex :: BN
  position_quoteAssetAmount :: BN
  position_openOrders :: BN

text \<open>
  The static objects of \<open>PositionDirection\<close> are \<open>{ long: {} }\<close> and \<open>{ short: {} }\<close>:
  each has one property, its tag.
\<close>

fun variantTag :: "PositionDirection \<Rightarrow> string" where
  "variantTag LONG = ''long''"
| "variantTag SHORT = ''short''"

text \<open>
  Modelled from the spec: \<open>isVariant\<close> is imported from \<open>../types\<close> and is not defined in
  the \<open>types.ts\<close> of the sources. It tells whether a variant object is the one with the
  given tag.
\<close>

definition isVariant :: "PositionDirection \<Rightarrow> string \<Rightarrow> bool" where
  "isVariant obj tag = (variantTag obj = tag)"

section \<open>The curve arithmetic\<close>

definition calculatePrice :: "numericConstants \<Rightarrow> BN \<Rightarrow> BN \<Rightarrow> BN \<Rightarrow> error + BN" where
  "calculatePrice c baseAmount quoteAmount peg_multiplier =
     (if \<bar>baseAmount\<bar> \<le> ZERO then Inr 0
      else
        case bn_div (quoteAmount * MARK_PRICE_PRECISION c * peg_multiplier) (PEG_PRECISION c) of
          Inl e \<Rightarrow> Inl e
        | Inr t \<Rightarrow> bn_div t baseAmount)"

definition calculateSwapOutput ::
  "BN \<Rightarrow> BN \<Rightarrow> SwapDirection \<Rightarrow> BN \<Rightarrow> error + (BN \<times> BN)" where
  "calculateSwapOutput inputAssetReserve swapAmount swapDirection invariant =
     (let newInputAssetReserve =
            (if swapDirection = ADD then inputAssetReserve + swapAmount
             else inputAssetReserve - swapAmount)
      in case bn_div invariant newInputAssetReserve of
           Inl e \<Rightarrow> Inl e
         | Inr newOutputAssetReserve \<Rightarrow> Inr (newInputAssetReserve, newOutputAssetReserve))"

text \<open>
  The conjunction that decides \<open>roundUp\<close> is short-circuit: \<open>mod\<close> is called only when
  the direction is \<open>REMOVE\<close>. The result is the pair \<open>(newQuoteAssetReserve,
  newBaseAssetReserve)\<close> on both paths.
\<close>

definition calculateAmmReservesAfterSwap ::
  "numericConstants \<Rightarrow> AMM \<Rightarrow> AssetType \<Rightarrow> BN \<Rightarrow> SwapDirection \<Rightarrow> error + (BN \<times> BN)" where
  "calculateAmmReservesAfterSwap c a inputAssetType swapAmount swapDirection =
     (case assert_ts (swapAmount \<ge> ZERO) ''swapAmount must be greater than 0'' of
        Inl e \<Rightarrow> Inl e
      | Inr _ \<Rightarrow>
          if inputAssetType = Quote then
            (let swapAmountIntermediate = swapAmount * MARK_PRICE_PRECISION c in
             case bn_div swapAmountIntermediate (pegMultiplier a) of
               Inl e \<Rightarrow> Inl e
             | Inr converted \<Rightarrow>
                 (case (if swapDirection = REMOVE
                        then (case bn_mod swapAmountIntermediate (pegMultiplier a) of
                                Inl e \<Rightarrow> Inl e
                              | Inr r \<Rightarrow> Inr (r \<noteq> ZERO))
                        else Inr False) of
                    Inl e \<Rightarrow> Inl e
                  | Inr roundUp \<Rightarrow>
                      (case calculateSwapOutput (quoteAssetReserve a)
                              (if roundUp then converted + ONE else converted)
                              swapDirection (sqrtK a * sqrtK a) of
                         Inl e \<Rightarrow> Inl e
                       | Inr (newQuoteAssetReserve, newBaseAssetReserve) \<Rightarrow>
                           Inr (newQuoteAssetReserve, newBaseAssetReserve))))
          else
            (case calculateSwapOutput (baseAssetReserve a) swapAmount swapDirection
                    (sqrtK a * sqrtK a) of
               Inl e \<Rightarrow> Inl e
             | Inr (newBaseAssetReserve, newQuoteAssetReserve) \<Rightarrow>
                 Inr (newQuoteAssetReserve, newBaseAssetReserve)))"

definition getSwapDirection :: "AssetType \<Rightarrow> PositionDirection \<Rightarrow> SwapDirection" where
  "getSwapDirection inputAssetType positionDirection =
     (if isVariant positionDirection ''long'' \<and> inputAssetType = Base then REMOVE
      else if isVariant positionDirection ''short'' \<and> inputAssetType = Quote then REMOVE
      else ADD)"

section \<open>The cost of a k-adjustment\<close>

text \<open>
  \<open>calculateBaseAssetValue\<close> (from \<open>./position\<close>) and \<open>calculatePositionPNL\<close> (from the
  package index) are not among the sources: \<open>calculateAdjustKCost\<close> takes both as
  parameters. Either may throw, and the failure propagates. \<open>Object.assign\<close> copies the
  market and its curve, so the three assignments change the copy only.
\<close>

definition calculateAdjustKCost ::
  "(Market \<Rightarrow> NetUserPosition \<Rightarrow> error + BN) \<Rightarrow> (Market \<Rightarrow> NetUserPosition \<Rightarrow> error + BN)
   \<Rightarrow> Market \<Rightarrow> BN \<Rightarrow> BN \<Rightarrow> BN \<Rightarrow> error + BN" where
  "calculateAdjustKCost baseAssetValue positionPNL market marketIndex numerator denomenator =
     (let netUserPosition =
            \<lparr> position_baseAssetAmount = baseAssetAmount market,
              position_lastCumulativeFundingRate = cumulativeFundingRate (amm market),
              position_marketIndex = marketIndex,
              position_quoteAssetAmount = 0,
              position_openOrders = 0 \<rparr>
      in case baseAssetValue market netUserPosition of
           Inl e \<Rightarrow> Inl e
         | Inr currentValue \<Rightarrow>
             (case bn_div (baseAssetReserve (amm market) * numerator) denomenator of
                Inl e \<Rightarrow> Inl e
              | Inr newBase \<Rightarrow>
                  (case bn_div (quoteAssetReserve (amm market) * numerator) denomenator of
                     Inl e \<Rightarrow> Inl e
                   | Inr newQuote \<Rightarrow>
                       (case bn_div (sqrtK (amm market) * numerator) denomenator of
                          Inl e \<Rightarrow> Inl e
                        | Inr newSqrtK \<Rightarrow>
                            positionPNL
                              (market\<lparr>amm := (amm market)\<lparr>baseAssetReserve := newBase,
                                 quoteAssetReserve := newQuote, sqrtK := newSqrtK\<rparr>\<rparr>)
                              (netUserPosition\<lparr>position_quoteAssetAmount := currentValue\<rparr>)))))"

text \<open>
  Modelled from the spec: \<open>calculatePositionPNL\<close> is not among the sources. By section 4.5
  the cost it returns is the delta between two valuations of the net position: its value
  on the market it is given, less the value recorded in the position's
  \<open>quoteAssetAmount\<close>. The valuation is the external base-asset valuation function, a
  parameter; its failure passes through.
\<close>

definition calculatePositionPNL ::
  "(Market \<Rightarrow> NetUserPosition \<Rightarrow> error + BN) \<Rightarrow> Market \<Rightarrow> NetUserPosition \<Rightarrow> error + BN" where
  "calculatePositionPNL baseAssetValue market position =
     (case baseAssetValue market position of
        Inl e \<Rightarrow> Inl e
      | Inr v \<Rightarrow> Inr (v - position_quoteAssetAmount position))"

section \<open>Terminal price and the largest trade under a limit\<close>

definition calculateTerminalPrice :: "numericConstants \<Rightarrow> Market \<Rightarrow> error + BN" where
  "calculateTerminalPrice c market =
     (let directionToClose = (if baseAssetAmount market > ZERO then SHORT else LONG) in
      case calculateAmmReservesAfterSwap c (amm market) Base \<bar>baseAssetAmount market\<bar>
             (getSwapDirection Base directionToClose) of
        Inl e \<Rightarrow> Inl e
      | Inr (newQuoteAssetReserve, newBaseAssetReserve) \<Rightarrow>
          (case bn_div (newQuoteAssetReserve * MARK_PRICE_PRECISION c * pegMultiplier (amm market))
                  (PEG_PRECISION c) of
             Inl e \<Rightarrow> Inl e
           | Inr t \<Rightarrow> bn_div t newBaseAssetReserve))"

text \<open>
  \<open>squareRootBN\<close> is imported from the package index and is not among the sources:
  \<open>calculateMaxBaseAssetAmountToTrade\<close> takes it as a parameter. The \<open>console.log\<close> of the
  last branch has no effect on the result.
\<close>

definition calculateMaxBaseAssetAmountToTrade ::
  "(BN \<Rightarrow> error + BN) \<Rightarrow> numericConstants \<Rightarrow> AMM \<Rightarrow> BN \<Rightarrow> error + (BN \<times> PositionDirection)" where
  "calculateMaxBaseAssetAmountToTrade squareRoot c a limit_price =
     (let invariant = sqrtK a * sqrtK a in
      case bn_div (invariant * MARK_PRICE_PRECISION c * pegMultiplier a) limit_price of
        Inl e \<Rightarrow> Inl e
      | Inr t \<Rightarrow>
          (case bn_div t (PEG_PRECISION c) of
             Inl e \<Rightarrow> Inl e
           | Inr newBaseAssetReserveSquared \<Rightarrow>
               (case squareRoot newBaseAssetReserveSquared of
                  Inl e \<Rightarrow> Inl e
                | Inr newBaseAssetReserve \<Rightarrow>
                    if newBaseAssetReserve > baseAssetReserve a then
                      Inr (newBaseAssetReserve - baseAssetReserve a, SHORT)
                    else if newBaseAssetReserve < baseAssetReserve a then
                      Inr (baseAssetReserve a - newBaseAssetReserve, LONG)
                    else Inr (0, LONG))))"

text \<open>
  Modelled from the spec: the square root of section 4.7 is the truncating integer square
  root, and by section 7 the root of a negative operand is an arithmetic failure.
  \<open>sqrt_floor\<close> counts the root up, one step of the operand at a time.
\<close>

fun sqrt_floor :: "nat \<Rightarrow> nat" where
  "sqrt_floor 0 = 0"
| "sqrt_floor (Suc n) =
     (let r = sqrt_floor n in if (r + 1) * (r + 1) \<le> Suc n then r + 1 else r)"

definition squareRootBN :: "BN \<Rightarrow> error + BN" where
  "squareRootBN n = (if n < 0 then Inl ArithmeticError else Inr (int (sqrt_floor (nat n))))"

section \<open>Sample states\<close>

text \<open>
  The scale constants of the examples, and a curve with both reserves at 10, \<open>sqrtK = 10\<close>
  and a peg of one at the peg scale. The examples below change single fields of it.
\<close>

definition sampleConstants :: numericConstants where
  "sampleConstants = \<lparr> MARK_PRICE_PRECISION = 10000000000, PEG_PRECISION = 1000 \<rparr>"

definition sampleAmm :: AMM where
  "sampleAmm =
     \<lparr> baseAssetReserve = 10, sqrtK = 10, cumulativeFundingRate = 0, lastFundingRate = 0,
       lastFundingRateTs = 0, lastMarkPriceTwap = 0, lastMarkPriceTwapTs = 0,
       lastOraclePriceTwap = 0, lastOraclePriceTwapTs = 0, oracle' = [],
       oracleSource = PYTH, fundingPeriod = 0, quoteAssetReserve = 10, pegMultiplier = 1000,
       cumulativeFundingRateLong = 0, cumulativeFundingRateShort = 0,
       cumulativeRepegRebateLong = 0, cumulativeRepegRebateShort = 0,
       totalFeeMinusDistributions = 0, totalFeeWithdrawn = 0, totalFee = 0,
       minimumQuoteAssetTradeSize = 0, minimumBaseAssetTradeSize = 0 \<rparr>"

definition sampleMarket :: Market where
  "sampleMarket =
     \<lparr> amm = sampleAmm, baseAssetAmount = 3, baseAssetAmountLong = 3,
       baseAssetAmountShort = 0, initialized = True, openInterest = 1 \<rparr>"

text \<open>A valuation that reads the position's base amount and the market's quote reserve only.\<close>

definition sampleValuation :: "Market \<Rightarrow> NetUserPosition \<Rightarrow> error + BN" where
  "sampleValuation market position =
     Inr (position_baseAssetAmount position * quoteAssetReserve (amm market))"

section \<open>Truncating division\<close>

lemma sdiv_mult_cancel:
  fixes q b :: int
  assumes "b \<noteq> 0"
  shows "(q * b) sdiv b = q"
proof -
  have "\<bar>q * b\<bar> div \<bar>b\<bar> = \<bar>q\<bar>"
    using assms by (simp add: abs_mult)
  then have "(q * b) sdiv b = sgn q * (sgn b * sgn b) * \<bar>q\<bar>"
    by (simp add: signed_divide_int_def sgn_mult)
  also have "sgn b * sgn b = 1"
    using assms by (simp add: sgn_if)
  finally show ?thesis by (simp add: sgn_if)
qed

text \<open>
  Multiplying the truncated quotient of a non-negative dividend back loses the remainder
  by the divisor's magnitude, whatever the sign of the divisor.
\<close>

lemma mult_sdiv_eq:
  fixes k n :: int
  assumes "0 \<le> k"
  shows "n * (k sdiv n) = k - k mod \<bar>n\<bar>"
proof -
  have "n * (k sdiv n) = sgn k * (n * sgn n) * (\<bar>k\<bar> div \<bar>n\<bar>)"
    by (simp add: signed_divide_int_def)
  also have "n * sgn n = \<bar>n\<bar>"
    by (simp add: sgn_if)
  also have "sgn k * \<bar>n\<bar> * (\<bar>k\<bar> div \<bar>n\<bar>) = \<bar>n\<bar> * (k div \<bar>n\<bar>)"
    using assms by (cases "k = 0") (simp_all add: sgn_if)
  also have "\<dots> = k - k mod \<bar>n\<bar>"
    by (simp add: minus_mod_eq_mult_div)
  finally show ?thesis .
qed

text \<open>The truncated remainder vanishes exactly when the divisor divides the dividend.\<close>

lemma smod_eq_0_iff_dvd:
  fixes a b :: int
  shows "a smod b = 0 \<longleftrightarrow> b dvd a"
proof -
  have "a smod b = 0 \<longleftrightarrow> \<bar>a\<bar> mod \<bar>b\<bar> = 0"
    by (auto simp: signed_modulo_int_def sgn_if)
  also have "\<dots> \<longleftrightarrow> \<bar>b\<bar> dvd \<bar>a\<bar>"
    by (simp add: dvd_eq_mod_eq_0)
  finally show ?thesis by simp
qed

lemma sqrt_floor_bounds:
  "sqrt_floor n * sqrt_floor n \<le> n \<and> n < (sqrt_floor n + 1) * (sqrt_floor n + 1)"
proof (induction n)
  case 0
  show ?case by simp
next
  case (Suc n)
  then show ?case by (auto simp: Let_def)
qed

section \<open>The swap simulator\<close>

lemma calculateSwapOutput_ADD:
  "calculateSwapOutput r x ADD k =
     (if r + x = 0 then Inl ArithmeticError else Inr (r + x, k sdiv (r + x)))"
  by (simp add: calculateSwapOutput_def bn_div_def Let_def)

lemma calculateSwapOutput_REMOVE:
  "calculateSwapOutput r x REMOVE k =
     (if r - x = 0 then Inl ArithmeticError else Inr (r - x, k sdiv (r - x)))"
  by (simp add: calculateSwapOutput_def bn_div_def Let_def)

lemma calculateSwapOutput_Inr:
  assumes "calculateSwapOutput r x d k = Inr (n, out)"
  shows "n \<noteq> 0 \<and> out = k sdiv n"
  using assms
  by (cases d) (auto simp: calculateSwapOutput_ADD calculateSwapOutput_REMOVE split: if_splits)

lemma swap_output_product:
  assumes "calculateSwapOutput r x d (s * s) = Inr (n, out)"
  shows "s * s - n * out = (s * s) mod \<bar>n\<bar> \<and> n \<noteq> 0"
proof -
  from calculateSwapOutput_Inr [OF assms] have n: "n \<noteq> 0" and out: "out = (s * s) sdiv n"
    by simp_all
  have "0 \<le> s * s" by simp
  from mult_sdiv_eq [OF this, of n] out have "n * out = s * s - (s * s) mod \<bar>n\<bar>"
    by simp
  with n show ?thesis by simp
qed

text \<open>
  C2, as the code has it. The claim is that a new input reserve that is zero or negative
  makes the simulator fail with an arithmetic error. The division of bn.js throws on a
  zero divisor only: when the new input reserve is zero the call fails with the
  arithmetic error, and when it is negative the call returns the negative reserve with
  the truncated quotient of the invariant by it.
\<close>

theorem calculateSwapOutput_result:
  "calculateSwapOutput r x d k =
     (let n = (if d = ADD then r + x else r - x)
      in if n = 0 then Inl ArithmeticError else Inr (n, k sdiv n))"
  by (simp add: calculateSwapOutput_def bn_div_def Let_def)

text \<open>
  Removing 10 from a reserve of 5 with invariant 100: the new input reserve is \<open>-5\<close> and
  the call returns.
\<close>

theorem swap_negative_reserve_counterexample:
  "calculateSwapOutput 5 10 REMOVE 100 = Inr (- 5, - 20)"
  by (simp add: calculateSwapOutput_def bn_div_def Let_def signed_divide_int_def)

section \<open>The direction resolver\<close>

text \<open>
  C5: the four pairs of trading direction and asset denomination map as the table of
  section 4.3 says (long and base, short and quote remove; long and quote, short and base
  add), and every result is \<open>ADD\<close> or \<open>REMOVE\<close>.
\<close>

theorem getSwapDirection_table:
  "getSwapDirection Base LONG = REMOVE \<and> getSwapDirection Quote SHORT = REMOVE \<and>
   getSwapDirection Quote LONG = ADD \<and> getSwapDirection Base SHORT = ADD \<and>
   (\<forall>t d. getSwapDirection t d \<in> {ADD, REMOVE})"
  by (simp add: getSwapDirection_def isVariant_def)

section \<open>The price calculator\<close>

text \<open>
  C4: the price is 0 when the magnitude of the base amount is 0; otherwise it is the quote
  amount times the price scale times the peg, divided by the peg scale and then by the
  base amount, both divisions truncating and taken in that order. The peg scale is a
  parameter here: were it zero, the first division would throw.
\<close>

theorem calculatePrice_formula:
  "calculatePrice c b q p =
     (if \<bar>b\<bar> = 0 then Inr 0
      else if PEG_PRECISION c = 0 then Inl ArithmeticError
      else Inr (((q * MARK_PRICE_PRECISION c * p) sdiv PEG_PRECISION c) sdiv b))"
  by (simp add: calculatePrice_def bn_div_def ZERO_def)

section \<open>The reserve projector\<close>

lemma quote_path:
  "calculateAmmReservesAfterSwap c a Quote x d =
     (if x < 0 then Inl (InvalidArgument ''swapAmount must be greater than 0'')
      else if pegMultiplier a = 0 then Inl ArithmeticError
      else calculateSwapOutput (quoteAssetReserve a)
             ((x * MARK_PRICE_PRECISION c) sdiv pegMultiplier a +
              (if d = REMOVE \<and> (x * MARK_PRICE_PRECISION c) smod pegMultiplier a \<noteq> 0
               then 1 else 0))
             d (sqrtK a * sqrtK a))"
  by (auto simp: calculateAmmReservesAfterSwap_def assert_ts_def bn_div_def bn_mod_def
      ZERO_def ONE_def Let_def split: sum.splits prod.splits)

lemma base_path:
  "calculateAmmReservesAfterSwap c a Base x d =
     (if x < 0 then Inl (InvalidArgument ''swapAmount must be greater than 0'')
      else case calculateSwapOutput (baseAssetReserve a) x d (sqrtK a * sqrtK a) of
             Inl e \<Rightarrow> Inl e
           | Inr (newBase, newQuote) \<Rightarrow> Inr (newQuote, newBase))"
  by (auto simp: calculateAmmReservesAfterSwap_def assert_ts_def ZERO_def
      split: sum.splits prod.splits)

text \<open>
  C6: on the quote path, with a swap amount that passes the assertion and a peg that can
  be divided by, the amount handed to the swap simulator is the truncated quotient of
  \<open>swapAmount * MARK_PRICE_PRECISION\<close> by the peg, plus one exactly when the direction is
  \<open>REMOVE\<close> and the remainder of that division is not zero. The simulator runs on the
  quote reserve with the invariant \<open>sqrtK * sqrtK\<close>, and its pair is returned as it is.
\<close>

theorem quote_conversion:
  assumes "0 \<le> x" and "pegMultiplier a \<noteq> 0"
  shows "calculateAmmReservesAfterSwap c a Quote x d =
     calculateSwapOutput (quoteAssetReserve a)
       ((x * MARK_PRICE_PRECISION c) sdiv pegMultiplier a +
        (if d = REMOVE \<and> (x * MARK_PRICE_PRECISION c) smod pegMultiplier a \<noteq> 0 then 1 else 0))
       d (sqrtK a * sqrtK a)"
  using assms by (simp add: quote_path)

text \<open>
  One quote unit against a peg of \<open>3000000000\<close>: the quotient 3 drops a remainder, so 4 is
  removed from the quote reserve of 10.
\<close>

theorem quote_conversion_witness:
  "(0::int) \<le> 1 \<and> pegMultiplier (sampleAmm\<lparr>pegMultiplier := 3000000000\<rparr>) \<noteq> 0 \<and>
   calculateAmmReservesAfterSwap sampleConstants (sampleAmm\<lparr>pegMultiplier := 3000000000\<rparr>)
     Quote 1 REMOVE = calculateSwapOutput 10 4 REMOVE 100 \<and>
   calculateSwapOutput 10 4 REMOVE 100 = Inr (6, 16)"
proof -
  have p: "pegMultiplier (sampleAmm\<lparr>pegMultiplier := 3000000000\<rparr>) \<noteq> 0"
    by simp
  have x: "(0::int) \<le> 1"
    by simp
  have "calculateSwapOutput 10 4 REMOVE 100 = Inr (6, 16)"
    by (simp add: calculateSwapOutput_REMOVE signed_divide_int_def)
  with quote_conversion [OF x p, of sampleConstants REMOVE] show ?thesis
    by (simp add: sampleAmm_def sampleConstants_def signed_divide_int_def
        signed_modulo_int_def)
qed

text \<open>
  C1, as the code has it. The claim is that the product of the returned reserves is
  \<open>sqrtK * sqrtK\<close> up to one unit, and that the deviation does not grow when swaps are
  composed. The output reserve is the truncated quotient of \<open>sqrtK * sqrtK\<close> by the new
  input reserve, so whenever the call returns the product is short of \<open>sqrtK * sqrtK\<close> by
  the remainder of that division: it never exceeds the invariant, and the shortfall is
  below the magnitude of the new input-side reserve (the new quote reserve on the quote
  path, the new base reserve on the base path). The reserves of the state are not read for
  the invariant, so the same holds for a state that earlier swaps produced.
\<close>

theorem reserves_product:
  assumes "calculateAmmReservesAfterSwap c a t x d = Inr (q, b)"
  shows "sqrtK a * sqrtK a - q * b = (sqrtK a * sqrtK a) mod \<bar>if t = Quote then q else b\<bar> \<and>
         q * b \<le> sqrtK a * sqrtK a \<and>
         sqrtK a * sqrtK a - q * b < \<bar>if t = Quote then q else b\<bar>"
proof -
  define n where "n = (if t = Quote then q else b)"
  define out where "out = (if t = Quote then b else q)"
  have "\<exists>r y. calculateSwapOutput r y d (sqrtK a * sqrtK a) = Inr (n, out)"
  proof (cases t)
    case Quote
    with assms show ?thesis
      by (auto simp: quote_path n_def out_def split: if_splits)
  next
    case Base
    with assms show ?thesis
      by (auto simp: base_path n_def out_def split: if_splits sum.splits prod.splits)
  qed
  then obtain r y where "calculateSwapOutput r y d (sqrtK a * sqrtK a) = Inr (n, out)"
    by blast
  from swap_output_product [OF this]
  have eq: "sqrtK a * sqrtK a - n * out = (sqrtK a * sqrtK a) mod \<bar>n\<bar>" and n: "n \<noteq> 0"
    by simp_all
  have qb: "q * b = n * out"
    by (simp add: n_def out_def)
  have "0 \<le> (sqrtK a * sqrtK a) mod \<bar>n\<bar>" and "(sqrtK a * sqrtK a) mod \<bar>n\<bar> < \<bar>n\<bar>"
    using n by simp_all
  with eq qb show ?thesis
    unfolding n_def by simp
qed

theorem reserves_product_witness:
  "calculateAmmReservesAfterSwap sampleConstants sampleAmm Base 3 REMOVE = Inr (14, 7) \<and>
   sqrtK sampleAmm * sqrtK sampleAmm - 14 * 7 = (sqrtK sampleAmm * sqrtK sampleAmm) mod \<bar>7\<bar> \<and>
   (14::int) * 7 \<le> sqrtK sampleAmm * sqrtK sampleAmm \<and>
   sqrtK sampleAmm * sqrtK sampleAmm - 14 * 7 < \<bar>7::int\<bar>"
proof -
  have r: "calculateAmmReservesAfterSwap sampleConstants sampleAmm Base 3 REMOVE = Inr (14, 7)"
    by (simp add: base_path calculateSwapOutput_REMOVE sampleAmm_def signed_divide_int_def)
  from reserves_product [OF r] r show ?thesis
    by simp
qed

text \<open>
  On the sample curve (both reserves 10, \<open>sqrtK = 10\<close>) adding 3 base units returns the
  reserves 7 and 13, whose product 91 is 9 short of 100. Composed, adding 1 and then 2
  gives a shortfall of 1 after the first swap and of 9 after the second.
\<close>

theorem product_deviation_counterexample:
  "baseAssetReserve sampleAmm * quoteAssetReserve sampleAmm = sqrtK sampleAmm * sqrtK sampleAmm \<and>
   calculateAmmReservesAfterSwap sampleConstants sampleAmm Base 3 ADD = Inr (7, 13) \<and>
   sqrtK sampleAmm * sqrtK sampleAmm - 7 * 13 = 9 \<and>
   calculateAmmReservesAfterSwap sampleConstants sampleAmm Base 1 ADD = Inr (9, 11) \<and>
   sqrtK sampleAmm * sqrtK sampleAmm - 9 * 11 = 1 \<and>
   calculateAmmReservesAfterSwap sampleConstants
     (sampleAmm\<lparr>baseAssetReserve := 11, quoteAssetReserve := 9\<rparr>) Base 2 ADD = Inr (7, 13)"
  by (simp add: base_path calculateSwapOutput_ADD sampleAmm_def signed_divide_int_def)

text \<open>When the projector returns: always on an addition to a live curve, and on a removal
  from the base reserve unless it empties the reserve exactly.\<close>

lemma reserves_after_add_returns:
  assumes "0 \<le> x" and "0 < baseAssetReserve a" and "0 < quoteAssetReserve a"
    and "0 < pegMultiplier a" and "0 \<le> MARK_PRICE_PRECISION c"
  shows "\<exists>q b. calculateAmmReservesAfterSwap c a t x ADD = Inr (q, b)"
proof (cases t)
  case Quote
  have "0 \<le> (x * MARK_PRICE_PRECISION c) sdiv pegMultiplier a"
    using assms by (simp add: signed_divide_int_def sgn_if pos_imp_zdiv_nonneg_iff)
  with assms Quote show ?thesis
    by (simp add: quote_path calculateSwapOutput_ADD)
next
  case Base
  with assms show ?thesis
    by (simp add: base_path calculateSwapOutput_ADD)
qed

lemma reserves_after_base_remove_returns:
  assumes "0 \<le> x" and "x \<noteq> baseAssetReserve a"
  shows "calculateAmmReservesAfterSwap c a Base x REMOVE =
           Inr ((sqrtK a * sqrtK a) sdiv (baseAssetReserve a - x), baseAssetReserve a - x)"
  using assms by (simp add: base_path calculateSwapOutput_REMOVE)

text \<open>
  C7, as the code has it. The claim is that a swap of 0 returns the reserves of every
  state unchanged. The input-side reserve comes back as it is, and the output-side reserve
  is computed afresh as the truncated quotient of \<open>sqrtK * sqrtK\<close> by it. So a swap of 0
  returns the reserves of the state exactly when the input-side reserve is not zero, the
  peg is not zero on the quote path, and the output-side reserve of the state is that
  quotient.
\<close>

theorem zero_swap_identity:
  "calculateAmmReservesAfterSwap c a t 0 d = Inr (quoteAssetReserve a, baseAssetReserve a) \<longleftrightarrow>
     (if t = Quote
      then pegMultiplier a \<noteq> 0 \<and> quoteAssetReserve a \<noteq> 0 \<and>
           (sqrtK a * sqrtK a) sdiv quoteAssetReserve a = baseAssetReserve a
      else baseAssetReserve a \<noteq> 0 \<and>
           (sqrtK a * sqrtK a) sdiv baseAssetReserve a = quoteAssetReserve a)"
proof (cases t)
  case Quote
  then show ?thesis
    by (cases d) (auto simp: quote_path calculateSwapOutput_ADD calculateSwapOutput_REMOVE)
next
  case Base
  then show ?thesis
    by (cases d) (auto simp: base_path calculateSwapOutput_ADD calculateSwapOutput_REMOVE)
qed

text \<open>In particular, a state whose reserves are not zero and multiply to \<open>sqrtK * sqrtK\<close>
  exactly is returned unchanged.\<close>

lemma zero_swap_on_exact_invariant:
  assumes "baseAssetReserve a * quoteAssetReserve a = sqrtK a * sqrtK a"
    and "baseAssetReserve a \<noteq> 0" and "quoteAssetReserve a \<noteq> 0"
    and "t = Quote \<longrightarrow> pegMultiplier a \<noteq> 0"
  shows "calculateAmmReservesAfterSwap c a t 0 d = Inr (quoteAssetReserve a, baseAssetReserve a)"
proof (cases t)
  case Quote
  have "(baseAssetReserve a * quoteAssetReserve a) sdiv quoteAssetReserve a = baseAssetReserve a"
    using assms(3) by (rule sdiv_mult_cancel)
  with assms Quote show ?thesis
    by (cases d) (simp_all add: quote_path calculateSwapOutput_ADD calculateSwapOutput_REMOVE)
next
  case Base
  have "(quoteAssetReserve a * baseAssetReserve a) sdiv baseAssetReserve a = quoteAssetReserve a"
    using assms(2) by (rule sdiv_mult_cancel)
  with assms Base show ?thesis
    by (cases d)
      (simp_all add: base_path calculateSwapOutput_ADD calculateSwapOutput_REMOVE mult.commute)
qed

text \<open>
  The reserves 7 and 13 with \<open>sqrtK = 10\<close> are what adding 3 base units to the sample curve
  returns. A quote swap of 0 on that state returns the base reserve 14.
\<close>

theorem zero_swap_counterexample:
  "calculateAmmReservesAfterSwap sampleConstants
     (sampleAmm\<lparr>baseAssetReserve := 13, quoteAssetReserve := 7\<rparr>) Quote 0 ADD = Inr (7, 14) \<and>
   calculateAmmReservesAfterSwap sampleConstants
     (sampleAmm\<lparr>baseAssetReserve := 13, quoteAssetReserve := 7\<rparr>) Quote 0 ADD \<noteq>
     Inr (quoteAssetReserve (sampleAmm\<lparr>baseAssetReserve := 13, quoteAssetReserve := 7\<rparr>),
          baseAssetReserve (sampleAmm\<lparr>baseAssetReserve := 13, quoteAssetReserve := 7\<rparr>))"
  by (simp add: quote_path calculateSwapOutput_ADD sampleAmm_def sampleConstants_def
      signed_divide_int_def)

text \<open>
  C10: on the base path the result does not depend on the peg. Two states with the same
  base reserve and the same \<open>sqrtK\<close> give the same result for every amount and direction,
  whatever their pegs (and whatever the scale constants).
\<close>

theorem base_swap_ignores_peg:
  assumes "baseAssetReserve a = baseAssetReserve a'" and "sqrtK a = sqrtK a'"
  shows "calculateAmmReservesAfterSwap c a Base x d = calculateAmmReservesAfterSwap c' a' Base x d"
  using assms by (simp add: base_path)

theorem base_swap_ignores_peg_witness:
  "pegMultiplier sampleAmm \<noteq> pegMultiplier (sampleAmm\<lparr>pegMultiplier := 7\<rparr>) \<and>
   calculateAmmReservesAfterSwap sampleConstants sampleAmm Base 3 REMOVE =
   calculateAmmReservesAfterSwap sampleConstants (sampleAmm\<lparr>pegMultiplier := 7\<rparr>) Base 3 REMOVE \<and>
   calculateAmmReservesAfterSwap sampleConstants (sampleAmm\<lparr>pegMultiplier := 7\<rparr>) Base 3 REMOVE =
     Inr (14, 7)"
proof -
  have b: "baseAssetReserve sampleAmm = baseAssetReserve (sampleAmm\<lparr>pegMultiplier := 7\<rparr>)"
    by simp
  have s: "sqrtK sampleAmm = sqrtK (sampleAmm\<lparr>pegMultiplier := 7\<rparr>)"
    by simp
  have "calculateAmmReservesAfterSwap sampleConstants (sampleAmm\<lparr>pegMultiplier := 7\<rparr>) Base 3 REMOVE =
     Inr (14, 7)"
    by (simp add: base_path calculateSwapOutput_REMOVE sampleAmm_def signed_divide_int_def)
  with base_swap_ignores_peg [OF b s, of sampleConstants 3 REMOVE sampleConstants] show ?thesis
    by (simp add: sampleAmm_def)
qed

section \<open>The terminal price\<close>

text \<open>
  The direction that closes the net position is \<open>SHORT\<close> for a positive net base amount,
  which adds to the base reserve, and \<open>LONG\<close> otherwise, which removes from it.
\<close>

lemma closing_swap_direction:
  "getSwapDirection Base (if (0::int) < n then SHORT else LONG) = (if 0 < n then ADD else REMOVE)"
  by (simp add: getSwapDirection_def isVariant_def)

text \<open>
  C8: the terminal price closes the net position (\<open>SHORT\<close> when the net base amount is
  positive, \<open>LONG\<close> otherwise, zero included), projects the reserves after a base swap of
  the magnitude of the net base amount in the direction the resolver gives for it, and
  is the price calculator on the new base reserve, the new quote reserve and the market's
  peg. The source writes the price formula out without the zero guard of
  \<open>calculatePrice\<close>; the two agree because a projection that returns has a new base
  reserve that is not zero. A failure of the projection is the failure of the terminal
  price.
\<close>

theorem terminal_price_is_price_of_projection:
  "calculateTerminalPrice c market =
     (case calculateAmmReservesAfterSwap c (amm market) Base \<bar>baseAssetAmount market\<bar>
             (getSwapDirection Base (if baseAssetAmount market > 0 then SHORT else LONG)) of
        Inl e \<Rightarrow> Inl e
      | Inr (newQuoteAssetReserve, newBaseAssetReserve) \<Rightarrow>
          calculatePrice c newBaseAssetReserve newQuoteAssetReserve (pegMultiplier (amm market)))"
proof (cases "calculateAmmReservesAfterSwap c (amm market) Base \<bar>baseAssetAmount market\<bar>
             (getSwapDirection Base (if baseAssetAmount market > 0 then SHORT else LONG))")
  case (Inl e)
  then show ?thesis
    by (simp add: calculateTerminalPrice_def ZERO_def Let_def)
next
  case (Inr qb)
  obtain q b where qb: "qb = (q, b)"
    by (cases qb)
  from Inr qb have "b \<noteq> 0"
    by (auto simp: base_path split: if_splits sum.splits dest: calculateSwapOutput_Inr)
  with Inr qb show ?thesis
    by (simp add: calculateTerminalPrice_def calculatePrice_def ZERO_def Let_def)
qed

text \<open>The sample market is net long 3 base units: closing adds them to the base reserve.\<close>

lemma terminal_price_sample:
  "calculateTerminalPrice sampleConstants sampleMarket = Inr 5384615384"
  by (simp add: calculateTerminalPrice_def getSwapDirection_def isVariant_def base_path
      calculateSwapOutput_ADD bn_div_def ZERO_def sampleMarket_def sampleAmm_def
      sampleConstants_def signed_divide_int_def)

section \<open>The largest trade under a limit\<close>

text \<open>
  C3, as the code has it. The claim is that a zero or negative limit price fails with an
  argument error before any division by it. The function checks no argument. A limit
  price of zero fails in the division by it, with the arithmetic error of that division.
  Any other limit price, a negative one included, is divided by: the quotient goes
  through the division by the peg scale to the square root, and whatever root comes back
  is compared with the base reserve.
\<close>

theorem max_trade_result:
  "calculateMaxBaseAssetAmountToTrade squareRoot c a limit_price =
     (if limit_price = 0 \<or> PEG_PRECISION c = 0 then Inl ArithmeticError
      else case squareRoot
                  (((sqrtK a * sqrtK a * MARK_PRICE_PRECISION c * pegMultiplier a) sdiv limit_price)
                     sdiv PEG_PRECISION c) of
             Inl e \<Rightarrow> Inl e
           | Inr r \<Rightarrow>
               Inr (if r > baseAssetReserve a then (r - baseAssetReserve a, SHORT)
                    else if r < baseAssetReserve a then (baseAssetReserve a - r, LONG)
                    else (0, LONG)))"
  by (simp add: calculateMaxBaseAssetAmountToTrade_def bn_div_def Let_def split: sum.splits)

text \<open>
  On the sample curve a limit price of zero fails in the division, with its arithmetic
  error. A negative limit price large enough for the quotient to truncate to zero does not
  fail at all with the truncating square root: the call returns the whole base reserve as
  a long trade.
\<close>

theorem max_trade_limit_counterexample:
  "calculateMaxBaseAssetAmountToTrade squareRootBN sampleConstants sampleAmm 0 =
     Inl ArithmeticError \<and>
   calculateMaxBaseAssetAmountToTrade squareRootBN sampleConstants sampleAmm
     (- 10000000000000000) = Inr (10, LONG)"
  by (simp add: calculateMaxBaseAssetAmountToTrade_def bn_div_def Let_def squareRootBN_def
      sampleConstants_def sampleAmm_def signed_divide_int_def)

section \<open>Neutrality of a k-adjustment by one\<close>

text \<open>
  Scaling by \<open>n / n\<close> with \<open>n\<close> not zero gives every scaled field its old value, so the
  hypothetical market is the market itself, for any valuation functions.
\<close>

lemma adjustK_unit_ratio:
  assumes "n \<noteq> 0"
  shows "calculateAdjustKCost baseAssetValue positionPNL market marketIndex n n =
     (case baseAssetValue market
             \<lparr> position_baseAssetAmount = baseAssetAmount market,
               position_lastCumulativeFundingRate = cumulativeFundingRate (amm market),
               position_marketIndex = marketIndex,
               position_quoteAssetAmount = 0,
               position_openOrders = 0 \<rparr> of
        Inl e \<Rightarrow> Inl e
      | Inr currentValue \<Rightarrow>
          positionPNL market
            \<lparr> position_baseAssetAmount = baseAssetAmount market,
              position_lastCumulativeFundingRate = cumulativeFundingRate (amm market),
              position_marketIndex = marketIndex,
              position_quoteAssetAmount = currentValue,
              position_openOrders = 0 \<rparr>)"
  using assms
  by (simp add: calculateAdjustKCost_def bn_div_def Let_def sdiv_mult_cancel split: sum.splits)

text \<open>
  C9: with numerator and denominator both \<open>n\<close>, not zero, the cost of the k-adjustment is
  0 for every market and net position. The valuation of the base amount is the external
  function: it is assumed not to read the \<open>quoteAssetAmount\<close> of the position it values,
  and when it fails on the market its failure is the result, as section 4.5 says.
\<close>

theorem adjustK_neutral:
  assumes "n \<noteq> 0"
    and "\<And>m p v. baseAssetValue m (p\<lparr>position_quoteAssetAmount := v\<rparr>) = baseAssetValue m p"
  shows "calculateAdjustKCost baseAssetValue (calculatePositionPNL baseAssetValue)
           market marketIndex n n =
     (case baseAssetValue market
             \<lparr> position_baseAssetAmount = baseAssetAmount market,
               position_lastCumulativeFundingRate = cumulativeFundingRate (amm market),
               position_marketIndex = marketIndex,
               position_quoteAssetAmount = 0,
               position_openOrders = 0 \<rparr> of
        Inl e \<Rightarrow> Inl e
      | Inr currentValue \<Rightarrow> Inr 0)"
proof -
  let ?p = "\<lparr> position_baseAssetAmount = baseAssetAmount market,
             position_lastCumulativeFundingRate = cumulativeFundingRate (amm market),
             position_marketIndex = marketIndex,
             position_quoteAssetAmount = 0,
             position_openOrders = 0 \<rparr>"
  have same: "baseAssetValue market (?p\<lparr>position_quoteAssetAmount := v\<rparr>) =
      baseAssetValue market ?p" for v
    by (rule assms(2))
  show ?thesis
  proof (cases "baseAssetValue market ?p")
    case (Inl e)
    then show ?thesis
      by (simp add: adjustK_unit_ratio [OF assms(1)])
  next
    case (Inr v)
    with same [of v] show ?thesis
      by (simp add: adjustK_unit_ratio [OF assms(1)] calculatePositionPNL_def)
  qed
qed

text \<open>The sample market, net long 3, valued at 30 by the sample valuation, scaled by 7 / 7.\<close>

theorem adjustK_neutral_witness:
  "(7::int) \<noteq> 0 \<and>
   sampleValuation sampleMarket
     \<lparr> position_baseAssetAmount = 3, position_lastCumulativeFundingRate = 0,
       position_marketIndex = 0, position_quoteAssetAmount = 0, position_openOrders = 0 \<rparr> =
     Inr 30 \<and>
   calculateAdjustKCost sampleValuation (calculatePositionPNL sampleValuation)
     sampleMarket 0 7 7 = Inr 0"
proof -
  have ign: "sampleValuation m (p\<lparr>position_quoteAssetAmount := v\<rparr>) = sampleValuation m p"
    for m p v
    by (simp add: sampleValuation_def)
  have "(7::int) \<noteq> 0"
    by simp
  from adjustK_neutral [of 7 sampleValuation sampleMarket 0, OF this ign]
  show ?thesis
    by (simp add: sampleValuation_def sampleMarket_def sampleAmm_def)
qed

end
